theory Spec2Isabelle
  imports Complex_Main
begin

section \<open>Go values, errors and contexts\<close>

text \<open>
  A value of Go's \<^verbatim>\<open>interface{}\<close>, by its dynamic type. \<open>GoOther\<close> stands for a value of
  any dynamic type other than string, int and bool (a float, a slice, a channel, ...); its
  argument names that type. The type assertions \<^verbatim>\<open>v.(string)\<close> and \<^verbatim>\<open>v.(int)\<close> in their
  comma-ok form return the zero value and \<open>False\<close> on every other dynamic type and on nil.
\<close>

datatype go_value = GoNil | GoString string | GoInt int | GoBool bool | GoOther string

fun assert_string :: "go_value \<Rightarrow> string \<times> bool" where
  "assert_string (GoString s) = (s, True)"
| "assert_string _ = ('''', False)"

fun assert_int :: "go_value \<Rightarrow> int \<times> bool" where
  "assert_int (GoInt i) = (i, True)"
| "assert_int _ = (0, False)"

text \<open>
  \<^verbatim>\<open>map[string]interface{}\<close>: \<open>None\<close> is the nil map. Indexing a nil map or a missing key
  yields the zero value of the element type, the nil interface.
\<close>

type_synonym go_map = "(string \<rightharpoonup> go_value) option"

definition map_index :: "go_map \<Rightarrow> string \<Rightarrow> go_value" where
  "map_index m k = (case m of None \<Rightarrow> GoNil
                    | Some f \<Rightarrow> (case f k of None \<Rightarrow> GoNil | Some v \<Rightarrow> v))"

text \<open>
  An \<^verbatim>\<open>error\<close>: \<open>None\<close> is nil, \<open>Some msg\<close> an error whose \<^verbatim>\<open>Error()\<close> method returns
  \<open>msg\<close>. An instant of \<^verbatim>\<open>time.Time\<close> is a natural number.
\<close>

type_synonym go_error = "string option"

type_synonym time = nat

text \<open>
  A \<^verbatim>\<open>context.Context\<close> is a chain of \<^verbatim>\<open>context.WithValue\<close> calls over a root; \<^verbatim>\<open>Value\<close>
  returns the value of the innermost binding of the key and nil when there is none. A nil
  context is \<open>None\<close> of \<open>context option\<close>.
\<close>

datatype "context" = Background | WithValue "context" go_value go_value

fun context_Value :: "context \<Rightarrow> go_value \<Rightarrow> go_value" where
  "context_Value Background key = GoNil"
| "context_Value (WithValue parent k v) key = (if k = key then v else context_Value parent key)"

section \<open>internal/logger/logger.go\<close>

type_synonym LogLevel = string

definition DEBUG :: LogLevel where "DEBUG = ''DEBUG''"
definition INFO :: LogLevel where "INFO = ''INFO''"
definition WARN :: LogLevel where "WARN = ''WARN''"
definition ERROR :: LogLevel where "ERROR = ''ERROR''"
definition FATAL :: LogLevel where "FATAL = ''FATAL''"

record LogEntry =
  Timestamp :: time
  Level :: LogLevel
  Message :: string
  ServiceName :: string
  RequestID :: string
  UserID :: int
  Action :: string
  Resource :: string
  ResourceID :: string
  Metadata :: go_map
  Error :: go_error

text \<open>
  The interface \<^verbatim>\<open>Logger\<close>: a value of it is the record of its five methods, each a
  transformer of the state \<open>'w\<close> its implementation works on (the methods return nothing).
  The variadic \<^verbatim>\<open>metadata ...map[string]interface{}\<close> is the list of the maps passed.
\<close>

record 'w Logger =
  Logger_Debug :: "context option \<Rightarrow> string \<Rightarrow> go_map list \<Rightarrow> 'w \<Rightarrow> 'w"
  Logger_Info :: "context option \<Rightarrow> string \<Rightarrow> go_map list \<Rightarrow> 'w \<Rightarrow> 'w"
  Logger_Warn :: "context option \<Rightarrow> string \<Rightarrow> go_map list \<Rightarrow> 'w \<Rightarrow> 'w"
  Logger_Error :: "context option \<Rightarrow> string \<Rightarrow> go_error \<Rightarrow> go_map list \<Rightarrow> 'w \<Rightarrow> 'w"
  Logger_Fatal :: "context option \<Rightarrow> string \<Rightarrow> go_error \<Rightarrow> go_map list \<Rightarrow> 'w \<Rightarrow> 'w"

record 'w CompositeLogger =
  loggers :: "'w Logger list"

definition NewCompositeLogger :: "'w Logger list \<Rightarrow> 'w CompositeLogger" where
  "NewCompositeLogger ls = \<lparr>loggers = ls\<rparr>"

text \<open>Each method is the loop \<^verbatim>\<open>for _, logger := range l.loggers\<close> over the held sinks.\<close>

definition CompositeLogger_Debug ::
  "'w CompositeLogger \<Rightarrow> context option \<Rightarrow> string \<Rightarrow> go_map list \<Rightarrow> 'w \<Rightarrow> 'w" where
  "CompositeLogger_Debug l ctx message metadata w =
     fold (\<lambda>logger. Logger_Debug logger ctx message metadata) (loggers l) w"

definition CompositeLogger_Info ::
  "'w CompositeLogger \<Rightarrow> context option \<Rightarrow> string \<Rightarrow> go_map list \<Rightarrow> 'w \<Rightarrow> 'w" where
  "CompositeLogger_Info l ctx message metadata w =
     fold (\<lambda>logger. Logger_Info logger ctx message metadata) (loggers l) w"

definition CompositeLogger_Warn ::
  "'w CompositeLogger \<Rightarrow> context option \<Rightarrow> string \<Rightarrow> go_map list \<Rightarrow> 'w \<Rightarrow> 'w" where
  "CompositeLogger_Warn l ctx message metadata w =
     fold (\<lambda>logger. Logger_Warn logger ctx message metadata) (loggers l) w"

definition CompositeLogger_Error ::
  "'w CompositeLogger \<Rightarrow> context option \<Rightarrow> string \<Rightarrow> go_error \<Rightarrow> go_map list \<Rightarrow> 'w \<Rightarrow> 'w" where
  "CompositeLogger_Error l ctx message err metadata w =
     fold (\<lambda>logger. Logger_Error logger ctx message err metadata) (loggers l) w"

definition CompositeLogger_Fatal ::
  "'w CompositeLogger \<Rightarrow> context option \<Rightarrow> string \<Rightarrow> go_error \<Rightarrow> go_map list \<Rightarrow> 'w \<Rightarrow> 'w" where
  "CompositeLogger_Fatal l ctx message err metadata w =
     fold (\<lambda>logger. Logger_Fatal logger ctx message err metadata) (loggers l) w"

definition GetRequestIDFromContext :: "context option \<Rightarrow> string" where
  "GetRequestIDFromContext ctx =
     (case ctx of
        None \<Rightarrow> ''''
      | Some c \<Rightarrow>
          (case assert_string (context_Value c (GoString ''requestID'')) of
             (requestID, ok) \<Rightarrow> if ok then requestID else ''''))"

definition GetUserIDFromContext :: "context option \<Rightarrow> int" where
  "GetUserIDFromContext ctx =
     (case ctx of
        None \<Rightarrow> 0
      | Some c \<Rightarrow>
          (case assert_int (context_Value c (GoString ''userID'')) of
             (userID, ok) \<Rightarrow> if ok then userID else 0))"

section \<open>The world outside the program\<close>

text \<open>
  What is sent to the database through \<^verbatim>\<open>ExecContext\<close>: the statement (the table name is
  the only part of the query text that varies) and, for the insertion, the argument values
  in the order of the placeholders \<^verbatim>\<open>$1 .. $11\<close>. An argument is a Go value of the type
  the source passes: \<open>ArgNil\<close> is the nil interface (the SQL NULL of \<^verbatim>\<open>database/sql\<close>),
  \<open>ArgBytes None\<close> the nil byte slice. A Go \<^verbatim>\<open>string\<close> argument is always \<open>ArgString\<close>.
\<close>

datatype sql_arg = ArgNil | ArgTime time | ArgString string | ArgInt int | ArgBytes "string option"

datatype sql_stmt = CreateTableIfNotExists string | InsertInto string "sql_arg list"

definition insert_columns :: "string list" where
  "insert_columns = [''timestamp'', ''level'', ''message'', ''service_name'', ''request_id'',
     ''user_id'', ''action'', ''resource'', ''resource_id'', ''metadata'', ''error_message'']"

text \<open>The input of CloudWatch's \<^verbatim>\<open>PutMetricData\<close>.\<close>

datatype Dimension = Dimension (dim_Name: string) (dim_Value: string)

datatype MetricDatum = MetricDatum (MetricName: string) (Dimensions: "Dimension list")
  (datum_Timestamp: time) (datum_Value: real) (datum_Unit: string)

datatype PutMetricDataInput = PutMetricDataInput (Namespace: string) (MetricData: "MetricDatum list")

text \<open>
  The world holds what the sinks act on and what decides how the library calls end.
  \<^item> \<open>clock\<close> and \<open>ticks\<close>: the \<open>n\<close>-th call of \<^verbatim>\<open>time.Now()\<close> returns \<open>clock n\<close>.
  \<^item> \<open>stdout\<close>: the lines written by \<^verbatim>\<open>fmt.Printf\<close> and \<^verbatim>\<open>fmt.Println\<close>, oldest first.
  \<^item> \<open>db_trace\<close>: every \<^verbatim>\<open>ExecContext\<close> call made so far (connection handle, statement)
    with the error it returned; \<open>db_outcome\<close> decides that error from the calls before and
    the call itself. A row is inserted by a call \<open>InsertInto\<close> that returned nil.
  \<^item> \<open>cw_trace\<close> and \<open>cw_outcome\<close>: the same for \<^verbatim>\<open>PutMetricData\<close>.
  \<^item> \<open>json_Marshal_map\<close> and \<open>json_Marshal_entry\<close>: \<^verbatim>\<open>json.Marshal\<close> on a metadata map and
    on a \<open>LogEntry\<close>; \<open>Inl\<close> carries the message of the error returned.
  A library call returns a result or an error; a panic inside a library is not modelled.
\<close>

record world =
  clock :: "nat \<Rightarrow> time"
  ticks :: nat
  stdout :: "string list"
  db_outcome :: "((nat \<times> sql_stmt) \<times> go_error) list \<Rightarrow> nat \<times> sql_stmt \<Rightarrow> go_error"
  db_trace :: "((nat \<times> sql_stmt) \<times> go_error) list"
  cw_outcome :: "((nat \<times> PutMetricDataInput) \<times> go_error) list \<Rightarrow> nat \<times> PutMetricDataInput \<Rightarrow> go_error"
  cw_trace :: "((nat \<times> PutMetricDataInput) \<times> go_error) list"
  json_Marshal_map :: "(string \<rightharpoonup> go_value) \<Rightarrow> string + string"
  json_Marshal_entry :: "LogEntry \<Rightarrow> string + string"

definition time_Now :: "world \<Rightarrow> time \<times> world" where
  "time_Now w = (clock w (ticks w), w\<lparr>ticks := Suc (ticks w)\<rparr>)"

definition fmt_Println :: "string \<Rightarrow> world \<Rightarrow> world" where
  "fmt_Println line w = w\<lparr>stdout := stdout w @ [line]\<rparr>"

definition db_ExecContext :: "nat \<Rightarrow> sql_stmt \<Rightarrow> world \<Rightarrow> go_error \<times> world" where
  "db_ExecContext h stmt w =
     (let err = db_outcome w (db_trace w) (h, stmt)
      in (err, w\<lparr>db_trace := db_trace w @ [((h, stmt), err)]\<rparr>))"

definition client_PutMetricData :: "nat \<Rightarrow> PutMetricDataInput \<Rightarrow> world \<Rightarrow> go_error \<times> world" where
  "client_PutMetricData h input w =
     (let err = cw_outcome w (cw_trace w) (h, input)
      in (err, w\<lparr>cw_trace := cw_trace w @ [((h, input), err)]\<rparr>))"

section \<open>internal/logger/db_logger.go: the database sink\<close>

record DBLogger =
  db :: nat
  serviceName :: string
  tableName :: string

definition NewDBLogger :: "nat \<Rightarrow> string \<Rightarrow> string \<Rightarrow> DBLogger" where
  "NewDBLogger d sn tn = \<lparr>db = d, serviceName = sn, tableName = tn\<rparr>"

definition ensureLogTable :: "DBLogger \<Rightarrow> context option \<Rightarrow> world \<Rightarrow> go_error \<times> world" where
  "ensureLogTable l ctx w = db_ExecContext (db l) (CreateTableIfNotExists (tableName l)) w"

definition DBLogger_createLogEntry ::
  "DBLogger \<Rightarrow> context option \<Rightarrow> LogLevel \<Rightarrow> string \<Rightarrow> go_error \<Rightarrow> go_map list \<Rightarrow> world
    \<Rightarrow> LogEntry \<times> world" where
  "DBLogger_createLogEntry l ctx level message err metadata w =
     (case time_Now w of (now, w1) \<Rightarrow>
        (let entry = \<lparr>Timestamp = now, Level = level, Message = message,
                      ServiceName = DBLogger.serviceName l,
                      RequestID = GetRequestIDFromContext ctx,
                      UserID = GetUserIDFromContext ctx,
                      Action = '''', Resource = '''', ResourceID = '''',
                      Metadata = None, Error = err\<rparr>;
             entry = (case metadata of [] \<Rightarrow> entry | m # _ \<Rightarrow> entry\<lparr>Metadata := m\<rparr>);
             entry =
               (if Metadata entry \<noteq> None then
                  (let entry = (case assert_string (map_index (Metadata entry) ''action'') of
                                  (action, ok) \<Rightarrow> if ok then entry\<lparr>Action := action\<rparr> else entry);
                       entry = (case assert_string (map_index (Metadata entry) ''resource'') of
                                  (resource, ok) \<Rightarrow> if ok then entry\<lparr>Resource := resource\<rparr> else entry);
                       entry = (case assert_string (map_index (Metadata entry) ''resource_id'') of
                                  (resourceID, ok) \<Rightarrow>
                                    if ok then entry\<lparr>ResourceID := resourceID\<rparr> else entry)
                   in entry)
                else entry)
         in (entry, w1)))"

definition logToDB :: "DBLogger \<Rightarrow> context option \<Rightarrow> LogEntry \<Rightarrow> world \<Rightarrow> world" where
  "logToDB l ctx entry w =
     (case ensureLogTable l ctx w of
        (Some err, w1) \<Rightarrow> fmt_Println (''Error ensuring log table: '' @ err) w1
      | (None, w1) \<Rightarrow>
          (case (case Metadata entry of
                   None \<Rightarrow> (None, None)
                 | Some m \<Rightarrow> (case json_Marshal_map w1 m of
                               Inl e \<Rightarrow> (None, Some e)
                             | Inr b \<Rightarrow> (Some b, None))) of
             (metadataJSON, Some err) \<Rightarrow> fmt_Println (''Error marshaling metadata: '' @ err) w1
           | (metadataJSON, None) \<Rightarrow>
               (let errorMessage = (case Error entry of Some msg \<Rightarrow> msg | None \<Rightarrow> '''')
                in (case db_ExecContext (db l)
                           (InsertInto (tableName l)
                              [ArgTime (Timestamp entry),
                               ArgString (Level entry),
                               ArgString (Message entry),
                               ArgString (ServiceName entry),
                               ArgString (RequestID entry),
                               ArgInt (UserID entry),
                               ArgString (Action entry),
                               ArgString (Resource entry),
                               ArgString (ResourceID entry),
                               ArgBytes metadataJSON,
                               ArgString errorMessage]) w1 of
                      (Some err, w2) \<Rightarrow> fmt_Println (''Error inserting log entry: '' @ err) w2
                    | (None, w2) \<Rightarrow> w2))))"

definition DBLogger_Debug ::
  "DBLogger \<Rightarrow> context option \<Rightarrow> string \<Rightarrow> go_map list \<Rightarrow> world \<Rightarrow> world" where
  "DBLogger_Debug l ctx message metadata w =
     (case DBLogger_createLogEntry l ctx DEBUG message None metadata w of
        (entry, w1) \<Rightarrow> logToDB l ctx entry w1)"

definition DBLogger_Info ::
  "DBLogger \<Rightarrow> context option \<Rightarrow> string \<Rightarrow> go_map list \<Rightarrow> world \<Rightarrow> world" where
  "DBLogger_Info l ctx message metadata w =
     (case DBLogger_createLogEntry l ctx INFO message None metadata w of
        (entry, w1) \<Rightarrow> logToDB l ctx entry w1)"

definition DBLogger_Warn ::
  "DBLogger \<Rightarrow> context option \<Rightarrow> string \<Rightarrow> go_map list \<Rightarrow> world \<Rightarrow> world" where
  "DBLogger_Warn l ctx message metadata w =
     (case DBLogger_createLogEntry l ctx WARN message None metadata w of
        (entry, w1) \<Rightarrow> logToDB l ctx entry w1)"

definition DBLogger_Error ::
  "DBLogger \<Rightarrow> context option \<Rightarrow> string \<Rightarrow> go_error \<Rightarrow> go_map list \<Rightarrow> world \<Rightarrow> world" where
  "DBLogger_Error l ctx message err metadata w =
     (case DBLogger_createLogEntry l ctx ERROR message err metadata w of
        (entry, w1) \<Rightarrow> logToDB l ctx entry w1)"

definition DBLogger_Fatal ::
  "DBLogger \<Rightarrow> context option \<Rightarrow> string \<Rightarrow> go_error \<Rightarrow> go_map list \<Rightarrow> world \<Rightarrow> world" where
  "DBLogger_Fatal l ctx message err metadata w =
     (case DBLogger_createLogEntry l ctx FATAL message err metadata w of
        (entry, w1) \<Rightarrow> logToDB l ctx entry w1)"

section \<open>internal/logger/db_logger.go: the metrics sink\<close>

record CloudWatchLogger =
  client :: nat
  serviceName :: string
  namespace :: string

definition NewCloudWatchLogger :: "nat \<Rightarrow> string \<Rightarrow> string \<Rightarrow> CloudWatchLogger" where
  "NewCloudWatchLogger c sn ns = \<lparr>client = c, serviceName = sn, namespace = ns\<rparr>"

definition CloudWatchLogger_createLogEntry ::
  "CloudWatchLogger \<Rightarrow> context option \<Rightarrow> LogLevel \<Rightarrow> string \<Rightarrow> go_error \<Rightarrow> go_map list \<Rightarrow> world
    \<Rightarrow> LogEntry \<times> world" where
  "CloudWatchLogger_createLogEntry l ctx level message err metadata w =
     (case time_Now w of (now, w1) \<Rightarrow>
        (let entry = \<lparr>Timestamp = now, Level = level, Message = message,
                      ServiceName = CloudWatchLogger.serviceName l,
                      RequestID = GetRequestIDFromContext ctx,
                      UserID = GetUserIDFromContext ctx,
                      Action = '''', Resource = '''', ResourceID = '''',
                      Metadata = None, Error = err\<rparr>;
             entry = (case metadata of [] \<Rightarrow> entry | m # _ \<Rightarrow> entry\<lparr>Metadata := m\<rparr>);
             entry =
               (if Metadata entry \<noteq> None then
                  (let entry = (case assert_string (map_index (Metadata entry) ''action'') of
                                  (action, ok) \<Rightarrow> if ok then entry\<lparr>Action := action\<rparr> else entry);
                       entry = (case assert_string (map_index (Metadata entry) ''resource'') of
                                  (resource, ok) \<Rightarrow> if ok then entry\<lparr>Resource := resource\<rparr> else entry);
                       entry = (case assert_string (map_index (Metadata entry) ''resource_id'') of
                                  (resourceID, ok) \<Rightarrow>
                                    if ok then entry\<lparr>ResourceID := resourceID\<rparr> else entry)
                   in entry)
                else entry)
         in (entry, w1)))"

text \<open>\<^verbatim>\<open>fmt.Sprintf("%s_%s", entry.Level, entry.Resource)\<close> joins the two strings with an underscore.\<close>

definition putMetricData ::
  "CloudWatchLogger \<Rightarrow> context option \<Rightarrow> LogEntry \<Rightarrow> world \<Rightarrow> go_error \<times> world" where
  "putMetricData l ctx entry w =
     (let metricName = Level entry @ ''_'' @ Resource entry;
          metricName = (if metricName = '''' then Level entry else metricName);
          dimensions = [Dimension ''ServiceName'' (CloudWatchLogger.serviceName l)];
          dimensions = (if Resource entry \<noteq> ''''
                        then dimensions @ [Dimension ''Resource'' (Resource entry)]
                        else dimensions);
          dimensions = (if Action entry \<noteq> ''''
                        then dimensions @ [Dimension ''Action'' (Action entry)]
                        else dimensions)
      in client_PutMetricData (client l)
           (PutMetricDataInput (namespace l)
              [MetricDatum metricName dimensions (Timestamp entry) 1 ''Count'']) w)"

definition logToCloudWatch :: "CloudWatchLogger \<Rightarrow> context option \<Rightarrow> LogEntry \<Rightarrow> world \<Rightarrow> world" where
  "logToCloudWatch l ctx entry w =
     (case json_Marshal_entry w entry of
        Inl err \<Rightarrow> fmt_Println (''Error marshaling log entry: '' @ err) w
      | Inr jsonData \<Rightarrow>
          (case putMetricData l ctx entry w of
             (Some err, w1) \<Rightarrow>
               fmt_Println jsonData (fmt_Println (''Error sending metric to CloudWatch: '' @ err) w1)
           | (None, w1) \<Rightarrow> fmt_Println jsonData w1))"

definition CloudWatchLogger_Debug ::
  "CloudWatchLogger \<Rightarrow> context option \<Rightarrow> string \<Rightarrow> go_map list \<Rightarrow> world \<Rightarrow> world" where
  "CloudWatchLogger_Debug l ctx message metadata w =
     (case CloudWatchLogger_createLogEntry l ctx DEBUG message None metadata w of
        (entry, w1) \<Rightarrow> logToCloudWatch l ctx entry w1)"

definition CloudWatchLogger_Info ::
  "CloudWatchLogger \<Rightarrow> context option \<Rightarrow> string \<Rightarrow> go_map list \<Rightarrow> world \<Rightarrow> world" where
  "CloudWatchLogger_Info l ctx message metadata w =
     (case CloudWatchLogger_createLogEntry l ctx INFO message None metadata w of
        (entry, w1) \<Rightarrow> logToCloudWatch l ctx entry w1)"

definition CloudWatchLogger_Warn ::
  "CloudWatchLogger \<Rightarrow> context option \<Rightarrow> string \<Rightarrow> go_map list \<Rightarrow> world \<Rightarrow> world" where
  "CloudWatchLogger_Warn l ctx message metadata w =
     (case CloudWatchLogger_createLogEntry l ctx WARN message None metadata w of
        (entry, w1) \<Rightarrow> logToCloudWatch l ctx entry w1)"

definition CloudWatchLogger_Error ::
  "CloudWatchLogger \<Rightarrow> context option \<Rightarrow> string \<Rightarrow> go_error \<Rightarrow> go_map list \<Rightarrow> world \<Rightarrow> world" where
  "CloudWatchLogger_Error l ctx message err metadata w =
     (case CloudWatchLogger_createLogEntry l ctx ERROR message err metadata w of
        (entry, w1) \<Rightarrow> logToCloudWatch l ctx entry w1)"

definition CloudWatchLogger_Fatal ::
  "CloudWatchLogger \<Rightarrow> context option \<Rightarrow> string \<Rightarrow> go_error \<Rightarrow> go_map list \<Rightarrow> world \<Rightarrow> world" where
  "CloudWatchLogger_Fatal l ctx message err metadata w =
     (case CloudWatchLogger_createLogEntry l ctx FATAL message err metadata w of
        (entry, w1) \<Rightarrow> logToCloudWatch l ctx entry w1)"

section \<open>The two sinks as values of the interface\<close>

text \<open>
  \<^verbatim>\<open>*DBLogger\<close> and \<^verbatim>\<open>*CloudWatchLogger\<close> satisfy \<^verbatim>\<open>Logger\<close> by their method sets; passing one
  where a \<^verbatim>\<open>Logger\<close> is expected (as \<^verbatim>\<open>NewCompositeLogger(cloudWatchLogger, dbLogger)\<close> does)
  is the conversion below.
\<close>

datatype sink = DB DBLogger | CW CloudWatchLogger

fun as_Logger :: "sink \<Rightarrow> world Logger" where
  "as_Logger (DB l) =
     \<lparr>Logger_Debug = DBLogger_Debug l, Logger_Info = DBLogger_Info l,
      Logger_Warn = DBLogger_Warn l, Logger_Error = DBLogger_Error l,
      Logger_Fatal = DBLogger_Fatal l\<rparr>"
| "as_Logger (CW l) =
     \<lparr>Logger_Debug = CloudWatchLogger_Debug l, Logger_Info = CloudWatchLogger_Info l,
      Logger_Warn = CloudWatchLogger_Warn l, Logger_Error = CloudWatchLogger_Error l,
      Logger_Fatal = CloudWatchLogger_Fatal l\<rparr>"

text \<open>The logger that \<^verbatim>\<open>init\<close> of cmd/users/main.go wires, over connection and client handles.\<close>

definition main_log :: "nat \<Rightarrow> nat \<Rightarrow> world CompositeLogger" where
  "main_log cwClient d =
     NewCompositeLogger
       [as_Logger (CW (NewCloudWatchLogger cwClient ''site-geav-api'' ''SiteGeav/API'')),
        as_Logger (DB (NewDBLogger d ''site-geav-api'' ''api_logs''))]"

section \<open>cmd/users/main.go: the router\<close>

text \<open>
  Of \<^verbatim>\<open>events.APIGatewayProxyRequest\<close>: the fields the router reads, and the authorizer
  claims of the request context (\<^verbatim>\<open>RequestContext.Authorizer\<close>), where the gateway puts
  the principal of the caller.
\<close>

record APIGatewayProxyRequest =
  req_Resource :: string
  req_HTTPMethod :: string
  req_Headers :: "string \<rightharpoonup> string"
  req_Authorizer :: "string \<rightharpoonup> go_value"

record APIGatewayProxyResponse =
  StatusCode :: int
  resp_Headers :: "string \<rightharpoonup> string"
  Body :: string

text \<open>
  The methods of the three handler objects the router dispatches to. The router is
  parametrised by what they do: a handler takes the context and the request and returns a
  response and an error, acting on a state \<open>'w\<close>.
\<close>

datatype handler_method =
    ListUsers | GetUser | CreateUser | UpdateUser | DeleteUser
  | ListCancoes | GetCancao | CreateCancao | AddTagToCancao | AddRamoToCancao | UpdateCancao
  | DeleteCancao | RemoveTagFromCancao | RemoveRamoFromCancao
  | ListLugares | GetLugar | GetRatingsForLugar | CreateLugar | AddImageToLugar | AddTagToLugar
  | AddRamoToLugar | AddRatingToLugar | UpdateLugar | UpdateRatingForLugar | DeleteLugar
  | DeleteImageFromLugar | RemoveTagFromLugar | RemoveRamoFromLugar | DeleteRatingFromLugar

type_synonym 'w handler =
  "context \<Rightarrow> APIGatewayProxyRequest \<Rightarrow> 'w \<Rightarrow> (APIGatewayProxyResponse \<times> go_error) \<times> 'w"

definition not_found :: "APIGatewayProxyResponse \<times> go_error" where
  "not_found =
     (\<lparr>StatusCode = 404, resp_Headers = [''Content-Type'' \<mapsto> ''application/json''],
       Body = ''{\"error\":\"Not Found\"}''\<rparr>, None)"

definition router ::
  "(handler_method \<Rightarrow> 'w handler) \<Rightarrow> context \<Rightarrow> APIGatewayProxyRequest \<Rightarrow> 'w
    \<Rightarrow> (APIGatewayProxyResponse \<times> go_error) \<times> 'w" where
  "router handlers ctx0 request w =
     (let ctx = (case req_Headers request ''x-request-id'' of
                   Some requestID \<Rightarrow> WithValue ctx0 (GoString ''requestID'') (GoString requestID)
                 | None \<Rightarrow> ctx0);
          m = req_HTTPMethod request;
          r = req_Resource request
      in
        if m = ''GET'' then
          (if r = ''/users'' then handlers ListUsers ctx request w
           else if r = ''/users/{id}'' then handlers GetUser ctx request w
           else if r = ''/cancoes'' then handlers ListCancoes ctx request w
           else if r = ''/cancoes/{id}'' then handlers GetCancao ctx request w
           else if r = ''/lugares'' then handlers ListLugares ctx request w
           else if r = ''/lugares/{id}'' then handlers GetLugar ctx request w
           else if r = ''/lugares/{id}/ratings'' then handlers GetRatingsForLugar ctx request w
           else (not_found, w))
        else if m = ''POST'' then
          (if r = ''/users'' then handlers CreateUser ctx request w
           else if r = ''/cancoes'' then handlers CreateCancao ctx request w
           else if r = ''/cancoes/{id}/tags'' then handlers AddTagToCancao ctx request w
           else if r = ''/cancoes/{id}/ramos'' then handlers AddRamoToCancao ctx request w
           else if r = ''/lugares'' then handlers CreateLugar ctx request w
           else if r = ''/lugares/{id}/images'' then handlers AddImageToLugar ctx request w
           else if r = ''/lugares/{id}/tags'' then handlers AddTagToLugar ctx request w
           else if r = ''/lugares/{id}/ramos'' then handlers AddRamoToLugar ctx request w
           else if r = ''/lugares/{id}/ratings'' then handlers AddRatingToLugar ctx request w
           else (not_found, w))
        else if m = ''PUT'' then
          (if r = ''/users/{id}'' then handlers UpdateUser ctx request w
           else if r = ''/cancoes/{id}'' then handlers UpdateCancao ctx request w
           else if r = ''/lugares/{id}'' then handlers UpdateLugar ctx request w
           else if r = ''/lugares/{id}/ratings/{ratingId}''
             then handlers UpdateRatingForLugar ctx request w
           else (not_found, w))
        else if m = ''DELETE'' then
          (if r = ''/users/{id}'' then handlers DeleteUser ctx request w
           else if r = ''/cancoes/{id}'' then handlers DeleteCancao ctx request w
           else if r = ''/cancoes/{id}/tags/{tagId}'' then handlers RemoveTagFromCancao ctx request w
           else if r = ''/cancoes/{id}/ramos/{ramoId}''
             then handlers RemoveRamoFromCancao ctx request w
           else if r = ''/lugares/{id}'' then handlers DeleteLugar ctx request w
           else if r = ''/lugares/{id}/images/{imageId}''
             then handlers DeleteImageFromLugar ctx request w
           else if r = ''/lugares/{id}/tags/{tagId}'' then handlers RemoveTagFromLugar ctx request w
           else if r = ''/lugares/{id}/ramos/{ramoId}''
             then handlers RemoveRamoFromLugar ctx request w
           else if r = ''/lugares/{id}/ratings/{ratingId}''
             then handlers DeleteRatingFromLugar ctx request w
           else (not_found, w))
        else (not_found, w))"

section \<open>Observing calls\<close>

text \<open>
  A call of one of the five methods, as a value: the method, and the arguments it was
  given. \<open>invoke\<close> makes the call on a logger, \<open>CompositeLogger_invoke\<close> on the composite
  logger; \<open>call_level\<close> is the level constant the method of either sink passes to
  \<^verbatim>\<open>createLogEntry\<close>, \<open>call_error\<close> the error it passes (nil for Debug, Info and Warn).
\<close>

datatype logger_call =
    DebugCall "context option" string "go_map list"
  | InfoCall "context option" string "go_map list"
  | WarnCall "context option" string "go_map list"
  | ErrorCall "context option" string go_error "go_map list"
  | FatalCall "context option" string go_error "go_map list"

fun invoke :: "'w Logger \<Rightarrow> logger_call \<Rightarrow> 'w \<Rightarrow> 'w" where
  "invoke l (DebugCall ctx message metadata) = Logger_Debug l ctx message metadata"
| "invoke l (InfoCall ctx message metadata) = Logger_Info l ctx message metadata"
| "invoke l (WarnCall ctx message metadata) = Logger_Warn l ctx message metadata"
| "invoke l (ErrorCall ctx message err metadata) = Logger_Error l ctx message err metadata"
| "invoke l (FatalCall ctx message err metadata) = Logger_Fatal l ctx message err metadata"

fun CompositeLogger_invoke :: "'w CompositeLogger \<Rightarrow> logger_call \<Rightarrow> 'w \<Rightarrow> 'w" where
  "CompositeLogger_invoke l (DebugCall ctx message metadata) =
     CompositeLogger_Debug l ctx message metadata"
| "CompositeLogger_invoke l (InfoCall ctx message metadata) =
     CompositeLogger_Info l ctx message metadata"
| "CompositeLogger_invoke l (WarnCall ctx message metadata) =
     CompositeLogger_Warn l ctx message metadata"
| "CompositeLogger_invoke l (ErrorCall ctx message err metadata) =
     CompositeLogger_Error l ctx message err metadata"
| "CompositeLogger_invoke l (FatalCall ctx message err metadata) =
     CompositeLogger_Fatal l ctx message err metadata"

fun call_ctx :: "logger_call \<Rightarrow> context option" where
  "call_ctx (DebugCall ctx message metadata) = ctx"
| "call_ctx (InfoCall ctx message metadata) = ctx"
| "call_ctx (WarnCall ctx message metadata) = ctx"
| "call_ctx (ErrorCall ctx message err metadata) = ctx"
| "call_ctx (FatalCall ctx message err metadata) = ctx"

fun call_level :: "logger_call \<Rightarrow> LogLevel" where
  "call_level (DebugCall ctx message metadata) = DEBUG"
| "call_level (InfoCall ctx message metadata) = INFO"
| "call_level (WarnCall ctx message metadata) = WARN"
| "call_level (ErrorCall ctx message err metadata) = ERROR"
| "call_level (FatalCall ctx message err metadata) = FATAL"

fun call_message :: "logger_call \<Rightarrow> string" where
  "call_message (DebugCall ctx message metadata) = message"
| "call_message (InfoCall ctx message metadata) = message"
| "call_message (WarnCall ctx message metadata) = message"
| "call_message (ErrorCall ctx message err metadata) = message"
| "call_message (FatalCall ctx message err metadata) = message"

fun call_error :: "logger_call \<Rightarrow> go_error" where
  "call_error (DebugCall ctx message metadata) = None"
| "call_error (InfoCall ctx message metadata) = None"
| "call_error (WarnCall ctx message metadata) = None"
| "call_error (ErrorCall ctx message err metadata) = err"
| "call_error (FatalCall ctx message err metadata) = err"

fun call_metadata :: "logger_call \<Rightarrow> go_map list" where
  "call_metadata (DebugCall ctx message metadata) = metadata"
| "call_metadata (InfoCall ctx message metadata) = metadata"
| "call_metadata (WarnCall ctx message metadata) = metadata"
| "call_metadata (ErrorCall ctx message err metadata) = metadata"
| "call_metadata (FatalCall ctx message err metadata) = metadata"

fun with_metadata :: "logger_call \<Rightarrow> go_map list \<Rightarrow> logger_call" where
  "with_metadata (DebugCall ctx message _) metadata = DebugCall ctx message metadata"
| "with_metadata (InfoCall ctx message _) metadata = InfoCall ctx message metadata"
| "with_metadata (WarnCall ctx message _) metadata = WarnCall ctx message metadata"
| "with_metadata (ErrorCall ctx message err _) metadata = ErrorCall ctx message err metadata"
| "with_metadata (FatalCall ctx message err _) metadata = FatalCall ctx message err metadata"

text \<open>
  A sink under observation: \<open>traced i l\<close> behaves as \<open>l\<close> on the state of \<open>l\<close> and notes,
  beside it, each call it receives, tagged with \<open>i\<close>.
\<close>

definition traced :: "nat \<Rightarrow> 'w Logger \<Rightarrow> ((nat \<times> logger_call) list \<times> 'w) Logger" where
  "traced i l =
     \<lparr>Logger_Debug = (\<lambda>ctx message metadata (tr, w).
        (tr @ [(i, DebugCall ctx message metadata)], Logger_Debug l ctx message metadata w)),
      Logger_Info = (\<lambda>ctx message metadata (tr, w).
        (tr @ [(i, InfoCall ctx message metadata)], Logger_Info l ctx message metadata w)),
      Logger_Warn = (\<lambda>ctx message metadata (tr, w).
        (tr @ [(i, WarnCall ctx message metadata)], Logger_Warn l ctx message metadata w)),
      Logger_Error = (\<lambda>ctx message err metadata (tr, w).
        (tr @ [(i, ErrorCall ctx message err metadata)], Logger_Error l ctx message err metadata w)),
      Logger_Fatal = (\<lambda>ctx message err metadata (tr, w).
        (tr @ [(i, FatalCall ctx message err metadata)], Logger_Fatal l ctx message err metadata w))\<rparr>"

text \<open>The value an executed statement binds to a column: none for the table creation.\<close>

fun column_value :: "string \<Rightarrow> sql_stmt \<Rightarrow> sql_arg option" where
  "column_value c (InsertInto t args) = map_of (zip insert_columns args) c"
| "column_value c (CreateTableIfNotExists t) = None"

fun is_InsertInto :: "sql_stmt \<Rightarrow> bool" where
  "is_InsertInto (InsertInto t args) = True"
| "is_InsertInto (CreateTableIfNotExists t) = False"

text \<open>The first map of the variadic metadata, nil when none was passed.\<close>

definition first_metadata :: "go_map list \<Rightarrow> go_map" where
  "first_metadata metadata = (case metadata of [] \<Rightarrow> None | m # _ \<Rightarrow> m)"

text \<open>A handler that answers 200 and keeps the context it was given.\<close>

definition recording_handler :: "handler_method \<Rightarrow> (context list) handler" where
  "recording_handler m ctx request seen =
     ((\<lparr>StatusCode = 200, resp_Headers = Map.empty, Body = ''''\<rparr>, None), seen @ [ctx])"

text \<open>
  Names for parts of \<^verbatim>\<open>logToDB\<close> and \<^verbatim>\<open>router\<close>, to state what they do: the encoding step
  of lines 122-131 (\<open>Inl\<close> the error, \<open>Inr\<close> the bytes, nil for a nil map), the statement of
  lines 140-161, and the context after lines 68-70 of the router.
\<close>

definition marshal_metadata ::"world \<Rightarrow> go_map \<Rightarrow> string + string option" where
  "marshal_metadata w gm =
     (case gm of
        None \<Rightarrow> Inr None
      | Some m \<Rightarrow> (case json_Marshal_map w m of Inl e \<Rightarrow> Inl e | Inr b \<Rightarrow> Inr (Some b)))"

definition insert_statement :: "DBLogger \<Rightarrow> LogEntry \<Rightarrow> string option \<Rightarrow> sql_stmt" where
  "insert_statement l entry metadataJSON =
     InsertInto (tableName l)
       [ArgTime (Timestamp entry), ArgString (Level entry), ArgString (Message entry),
        ArgString (ServiceName entry), ArgString (RequestID entry), ArgInt (UserID entry),
        ArgString (Action entry), ArgString (Resource entry), ArgString (ResourceID entry),
        ArgBytes metadataJSON,
        ArgString (case Error entry of Some msg \<Rightarrow> msg | None \<Rightarrow> '''')]"

definition router_context :: "context \<Rightarrow> APIGatewayProxyRequest \<Rightarrow> context" where
  "router_context ctx0 request =
     (case req_Headers request ''x-request-id'' of
        Some requestID \<Rightarrow> WithValue ctx0 (GoString ''requestID'') (GoString requestID)
      | None \<Rightarrow> ctx0)"

section \<open>Concrete worlds and calls\<close>

text \<open>
  A world in which no library call fails: the clock reads 1000, 1001, ...; the JSON text
  returned is a placeholder for the encoding.
\<close>

definition calm_world :: world where
  "calm_world =
     \<lparr>clock = (\<lambda>n. 1000 + n), ticks = 0, stdout = [],
      db_outcome = (\<lambda>tr c. None), db_trace = [],
      cw_outcome = (\<lambda>tr c. None), cw_trace = [],
      json_Marshal_map = (\<lambda>m. Inr ''{...}''),
      json_Marshal_entry = (\<lambda>e. Inr ''{...}'')\<rparr>"

definition example_db :: DBLogger where
  "example_db = NewDBLogger 0 ''site-geav-api'' ''api_logs''"

definition example_cw :: CloudWatchLogger where
  "example_cw = NewCloudWatchLogger 0 ''site-geav-api'' ''SiteGeav/API''"

definition example_metadata :: "string \<rightharpoonup> go_value" where
  "example_metadata =
     [''action'' \<mapsto> GoString ''CreateUser'', ''resource'' \<mapsto> GoString ''users'',
      ''resource_id'' \<mapsto> GoInt 42]"

definition scenario_metadata :: "string \<rightharpoonup> go_value" where
  "scenario_metadata =
     [''action'' \<mapsto> GoString ''CreateUser'', ''resource'' \<mapsto> GoString ''users'',
      ''resource_id'' \<mapsto> GoString ''42'']"

text \<open>Worlds in which one operation fails, each with the message of its error.\<close>

definition db_down_world :: world where
  "db_down_world = calm_world\<lparr>db_outcome := (\<lambda>tr c. Some ''connection refused'')\<rparr>"

definition insert_failing_world :: world where
  "insert_failing_world =
     calm_world\<lparr>db_outcome := (\<lambda>tr c. if is_InsertInto (snd c) then Some ''value too long'' else None)\<rparr>"

text \<open>
  \<^verbatim>\<open>json.Marshal\<close> encodes an entry together with its metadata map (the field is tagged
  \<^verbatim>\<open>metadata,omitempty\<close>), so a map it rejects makes it reject every entry that carries the
  map, with the same error. The world below rejects a map that holds a channel under the
  key \<open>conn\<close>, and every entry whose metadata is such a map; everything else is encoded.
\<close>

definition unencodable_metadata_world :: world where
  "unencodable_metadata_world =
     calm_world
       \<lparr>json_Marshal_map :=
          (\<lambda>m. if m ''conn'' = Some (GoOther ''chan int'')
                then Inl ''json: unsupported type: chan int'' else Inr ''{...}''),
        json_Marshal_entry :=
          (\<lambda>e. case Metadata e of
                  None \<Rightarrow> Inr ''{...}''
                | Some m \<Rightarrow> if m ''conn'' = Some (GoOther ''chan int'')
                            then Inl ''json: unsupported type: chan int'' else Inr ''{...}'')\<rparr>"

definition metrics_down_world :: world where
  "metrics_down_world = calm_world\<lparr>cw_outcome := (\<lambda>tr c. Some ''request send failed'')\<rparr>"

text \<open>
  One Info call without metadata on the logger of cmd/users/main.go, and one Error call on
  the database sink, both in the calm world.
\<close>

definition fanout_example :: world where
  "fanout_example = CompositeLogger_Info (main_log 0 0) None ''hello'' [] calm_world"

definition error_call_example :: logger_call where
  "error_call_example =
     ErrorCall None ''boom'' (Some ''context deadline exceeded'') [Some example_metadata]"

definition example_entry :: LogEntry where
  "example_entry =
     \<lparr>Timestamp = 1000, Level = INFO, Message = ''hello'', ServiceName = ''site-geav-api'',
      RequestID = '''', UserID = 0, Action = ''CreateUser'', Resource = ''users'',
      ResourceID = '''', Metadata = Some example_metadata, Error = None\<rparr>"

text \<open>
  A metadata map that holds a channel, an Info call that passes it, and the entry a sink
  builds from that call at the instant 1000.
\<close>

definition channel_metadata :: "string \<rightharpoonup> go_value" where
  "channel_metadata =
     [''action'' \<mapsto> GoString ''CreateUser'', ''resource'' \<mapsto> GoString ''users'',
      ''conn'' \<mapsto> GoOther ''chan int'']"

definition channel_call_example :: logger_call where
  "channel_call_example = InfoCall None ''hello'' [Some channel_metadata]"

definition channel_entry :: LogEntry where
  "channel_entry =
     \<lparr>Timestamp = 1000, Level = INFO, Message = ''hello'', ServiceName = ''site-geav-api'',
      RequestID = '''', UserID = 0, Action = ''CreateUser'', Resource = ''users'',
      ResourceID = '''', Metadata = Some channel_metadata, Error = None\<rparr>"

definition error_call_row :: sql_stmt where
  "error_call_row =
     InsertInto ''api_logs''
       [ArgTime 1000, ArgString ''ERROR'', ArgString ''boom'', ArgString ''site-geav-api'',
        ArgString '''', ArgInt 0, ArgString ''CreateUser'', ArgString ''users'', ArgString '''',
        ArgBytes (Some ''{...}''), ArgString ''context deadline exceeded'']"

text \<open>
  Two requests for the list of users that differ in the spelling of the request-id header
  only; both come with a principal in the authorizer claims.
\<close>

definition lowercase_request :: APIGatewayProxyRequest where
  "lowercase_request =
     \<lparr>req_Resource = ''/users'', req_HTTPMethod = ''GET'',
      req_Headers = [''x-request-id'' \<mapsto> ''abc''],
      req_Authorizer = [''userID'' \<mapsto> GoInt 7]\<rparr>"

definition capitalised_request :: APIGatewayProxyRequest where
  "capitalised_request =
     \<lparr>req_Resource = ''/users'', req_HTTPMethod = ''GET'',
      req_Headers = [''X-Request-Id'' \<mapsto> ''abc''],
      req_Authorizer = [''userID'' \<mapsto> GoInt 7]\<rparr>"

text \<open>A context whose request id and user id are bound to values of the wrong type.\<close>

definition mistyped_context :: "context" where
  "mistyped_context =
     WithValue (WithValue Background (GoString ''requestID'') (GoInt 7))
       (GoString ''userID'') (GoString ''42'')"

section \<open>How the sinks act on the world\<close>

lemma assert_string_not_ok: "\<not> snd (assert_string v) \<Longrightarrow> fst (assert_string v) = ''''"
  by (cases v) simp_all

lemma DBLogger_createLogEntry_eq:
  "DBLogger_createLogEntry l ctx level message err metadata w =
     (\<lparr>Timestamp = clock w (ticks w), Level = level, Message = message,
       ServiceName = DBLogger.serviceName l,
       RequestID = GetRequestIDFromContext ctx, UserID = GetUserIDFromContext ctx,
       Action = fst (assert_string (map_index (first_metadata metadata) ''action'')),
       Resource = fst (assert_string (map_index (first_metadata metadata) ''resource'')),
       ResourceID = fst (assert_string (map_index (first_metadata metadata) ''resource_id'')),
       Metadata = first_metadata metadata, Error = err\<rparr>,
      w\<lparr>ticks := Suc (ticks w)\<rparr>)"
proof (cases "first_metadata metadata")
  case None
  then show ?thesis
    by (cases metadata)
       (simp_all add: DBLogger_createLogEntry_def time_Now_def first_metadata_def map_index_def)
next
  case (Some f)
  from Some obtain rest where md: "metadata = Some f # rest"
    by (cases metadata) (simp_all add: first_metadata_def)
  show ?thesis
    unfolding md
    by (simp add: DBLogger_createLogEntry_def time_Now_def first_metadata_def Let_def
        case_prod_beta assert_string_not_ok)
qed

lemma CloudWatchLogger_createLogEntry_eq:
  "CloudWatchLogger_createLogEntry l ctx level message err metadata w =
     (\<lparr>Timestamp = clock w (ticks w), Level = level, Message = message,
       ServiceName = CloudWatchLogger.serviceName l,
       RequestID = GetRequestIDFromContext ctx, UserID = GetUserIDFromContext ctx,
       Action = fst (assert_string (map_index (first_metadata metadata) ''action'')),
       Resource = fst (assert_string (map_index (first_metadata metadata) ''resource'')),
       ResourceID = fst (assert_string (map_index (first_metadata metadata) ''resource_id'')),
       Metadata = first_metadata metadata, Error = err\<rparr>,
      w\<lparr>ticks := Suc (ticks w)\<rparr>)"
proof (cases "first_metadata metadata")
  case None
  then show ?thesis
    by (cases metadata)
       (simp_all add: CloudWatchLogger_createLogEntry_def time_Now_def first_metadata_def map_index_def)
next
  case (Some f)
  from Some obtain rest where md: "metadata = Some f # rest"
    by (cases metadata) (simp_all add: first_metadata_def)
  show ?thesis
    unfolding md
    by (simp add: CloudWatchLogger_createLogEntry_def time_Now_def first_metadata_def Let_def
        case_prod_beta assert_string_not_ok)
qed

lemma invoke_DB:
  "invoke (as_Logger (DB l)) c w =
     logToDB l (call_ctx c)
       (fst (DBLogger_createLogEntry l (call_ctx c) (call_level c) (call_message c)
               (call_error c) (call_metadata c) w))
       (w\<lparr>ticks := Suc (ticks w)\<rparr>)"
  by (cases c)
     (simp_all add: DBLogger_Debug_def DBLogger_Info_def DBLogger_Warn_def DBLogger_Error_def
        DBLogger_Fatal_def DBLogger_createLogEntry_eq)

lemma invoke_CW:
  "invoke (as_Logger (CW l)) c w =
     logToCloudWatch l (call_ctx c)
       (fst (CloudWatchLogger_createLogEntry l (call_ctx c) (call_level c) (call_message c)
               (call_error c) (call_metadata c) w))
       (w\<lparr>ticks := Suc (ticks w)\<rparr>)"
  by (cases c)
     (simp_all add: CloudWatchLogger_Debug_def CloudWatchLogger_Info_def CloudWatchLogger_Warn_def
        CloudWatchLogger_Error_def CloudWatchLogger_Fatal_def CloudWatchLogger_createLogEntry_eq)

declare as_Logger.simps [simp del]

lemma CompositeLogger_invoke_fold:
  "CompositeLogger_invoke l c w = fold (\<lambda>logger. invoke logger c) (loggers l) w"
  by (cases c)
     (simp_all add: CompositeLogger_Debug_def CompositeLogger_Info_def CompositeLogger_Warn_def
        CompositeLogger_Error_def CompositeLogger_Fatal_def)

lemma logToDB_preserves:
  "clock (logToDB l ctx entry w) = clock w \<and> ticks (logToDB l ctx entry w) = ticks w
   \<and> db_outcome (logToDB l ctx entry w) = db_outcome w
   \<and> cw_outcome (logToDB l ctx entry w) = cw_outcome w
   \<and> cw_trace (logToDB l ctx entry w) = cw_trace w
   \<and> json_Marshal_map (logToDB l ctx entry w) = json_Marshal_map w
   \<and> json_Marshal_entry (logToDB l ctx entry w) = json_Marshal_entry w"
  by (simp add: logToDB_def ensureLogTable_def db_ExecContext_def fmt_Println_def Let_def
      split: option.split sum.split prod.split)

lemma logToCloudWatch_preserves:
  "clock (logToCloudWatch l ctx entry w) = clock w \<and> ticks (logToCloudWatch l ctx entry w) = ticks w
   \<and> db_outcome (logToCloudWatch l ctx entry w) = db_outcome w
   \<and> cw_outcome (logToCloudWatch l ctx entry w) = cw_outcome w
   \<and> db_trace (logToCloudWatch l ctx entry w) = db_trace w
   \<and> json_Marshal_map (logToCloudWatch l ctx entry w) = json_Marshal_map w
   \<and> json_Marshal_entry (logToCloudWatch l ctx entry w) = json_Marshal_entry w"
  by (simp add: logToCloudWatch_def putMetricData_def client_PutMetricData_def fmt_Println_def Let_def
      split: option.split sum.split prod.split)

lemma invoke_sink_preserves:
  "clock (invoke (as_Logger s) c w) = clock w \<and> ticks (invoke (as_Logger s) c w) = Suc (ticks w)
   \<and> db_outcome (invoke (as_Logger s) c w) = db_outcome w
   \<and> cw_outcome (invoke (as_Logger s) c w) = cw_outcome w
   \<and> json_Marshal_map (invoke (as_Logger s) c w) = json_Marshal_map w
   \<and> json_Marshal_entry (invoke (as_Logger s) c w) = json_Marshal_entry w"
proof (cases s)
  case (DB l)
  show ?thesis unfolding DB invoke_DB by (simp add: logToDB_preserves)
next
  case (CW l)
  show ?thesis unfolding CW invoke_CW by (simp add: logToCloudWatch_preserves)
qed

lemma fold_sinks_preserves:
  "clock (fold (\<lambda>s. invoke (as_Logger s) c) ss w) = clock w
   \<and> ticks (fold (\<lambda>s. invoke (as_Logger s) c) ss w) = ticks w + length ss
   \<and> db_outcome (fold (\<lambda>s. invoke (as_Logger s) c) ss w) = db_outcome w
   \<and> cw_outcome (fold (\<lambda>s. invoke (as_Logger s) c) ss w) = cw_outcome w
   \<and> json_Marshal_map (fold (\<lambda>s. invoke (as_Logger s) c) ss w) = json_Marshal_map w
   \<and> json_Marshal_entry (fold (\<lambda>s. invoke (as_Logger s) c) ss w) = json_Marshal_entry w"
proof (induction ss arbitrary: w)
  case Nil
  show ?case by simp
next
  case (Cons s ss)
  show ?case using Cons.IH [of "invoke (as_Logger s) c w"] invoke_sink_preserves [of s c w]
    by simp
qed

lemma fold_map_as_Logger:
  "fold (\<lambda>logger. invoke logger c) (map as_Logger ss) w = fold (\<lambda>s. invoke (as_Logger s) c) ss w"
  by (simp add: fold_map comp_def)

lemma putMetricData_trace:
  "cw_trace (snd (putMetricData l ctx entry w)) =
     cw_trace w @
       [((client l,
          PutMetricDataInput (namespace l)
            [MetricDatum (Level entry @ ''_'' @ Resource entry)
               ([Dimension ''ServiceName'' (CloudWatchLogger.serviceName l)]
                @ (if Resource entry \<noteq> '''' then [Dimension ''Resource'' (Resource entry)] else [])
                @ (if Action entry \<noteq> '''' then [Dimension ''Action'' (Action entry)] else []))
               (Timestamp entry) 1 ''Count'']),
         fst (putMetricData l ctx entry w))]"
  by (simp add: putMetricData_def client_PutMetricData_def Let_def)

lemma first_metadata_Cons: "first_metadata (m # ms) = m"
  by (simp add: first_metadata_def)

lemma call_parts_with_metadata:
  "call_ctx (with_metadata c md) = call_ctx c" "call_level (with_metadata c md) = call_level c"
  "call_message (with_metadata c md) = call_message c" "call_error (with_metadata c md) = call_error c"
  "call_metadata (with_metadata c md) = md"
  by (case_tac [!] c) simp_all

lemma invoke_sink_first_map:
  "invoke (as_Logger s) (with_metadata c (m # ms)) w = invoke (as_Logger s) (with_metadata c [m]) w"
  by (cases s)
     (simp_all add: invoke_DB invoke_CW call_parts_with_metadata DBLogger_createLogEntry_eq
        CloudWatchLogger_createLogEntry_eq first_metadata_Cons)

lemma invoke_traced: "invoke (traced i l) c (tr, w) = (tr @ [(i, c)], invoke l c w)"
  by (cases c) (simp_all add: traced_def)

lemma fold_traced:
  "fold (\<lambda>logger. invoke logger c) (map (\<lambda>(i, l). traced i l) (enumerate n ls)) (tr, w) =
     (tr @ map (\<lambda>i. (i, c)) [n..<n + length ls], fold (\<lambda>logger. invoke logger c) ls w)"
proof (induction ls arbitrary: n tr w)
  case Nil
  show ?case by simp
next
  case (Cons l ls)
  have "[n..<n + length (l # ls)] = n # [Suc n..<Suc n + length ls]"
    by (simp add: upt_rec)
  then show ?case
    by (simp add: invoke_traced Cons.IH)
qed

lemma logToDB_eq:
  "logToDB l ctx entry w =
     (case db_outcome w (db_trace w) (db l, CreateTableIfNotExists (tableName l)) of
        Some e \<Rightarrow>
          w\<lparr>stdout := stdout w @ [''Error ensuring log table: '' @ e],
            db_trace := db_trace w @ [((db l, CreateTableIfNotExists (tableName l)), Some e)]\<rparr>
      | None \<Rightarrow>
          (case marshal_metadata w (Metadata entry) of
             Inl e \<Rightarrow>
               w\<lparr>stdout := stdout w @ [''Error marshaling metadata: '' @ e],
                 db_trace := db_trace w @ [((db l, CreateTableIfNotExists (tableName l)), None)]\<rparr>
           | Inr j \<Rightarrow>
               (case db_outcome w (db_trace w @ [((db l, CreateTableIfNotExists (tableName l)), None)])
                       (db l, insert_statement l entry j) of
                  Some e \<Rightarrow>
                    w\<lparr>stdout := stdout w @ [''Error inserting log entry: '' @ e],
                      db_trace := db_trace w @ [((db l, CreateTableIfNotExists (tableName l)), None),
                                                ((db l, insert_statement l entry j), Some e)]\<rparr>
                | None \<Rightarrow>
                    w\<lparr>db_trace := db_trace w @ [((db l, CreateTableIfNotExists (tableName l)), None),
                                                ((db l, insert_statement l entry j), None)]\<rparr>)))"
  by (simp add: logToDB_def ensureLogTable_def db_ExecContext_def fmt_Println_def Let_def
      marshal_metadata_def insert_statement_def split: option.split sum.split)

lemma logToCloudWatch_eq:
  "logToCloudWatch l ctx entry w =
     (case json_Marshal_entry w entry of
        Inl e \<Rightarrow> w\<lparr>stdout := stdout w @ [''Error marshaling log entry: '' @ e]\<rparr>
      | Inr j \<Rightarrow>
          (case fst (putMetricData l ctx entry w) of
             Some e \<Rightarrow>
               (snd (putMetricData l ctx entry w))
                 \<lparr>stdout := stdout w @ [''Error sending metric to CloudWatch: '' @ e, j]\<rparr>
           | None \<Rightarrow> (snd (putMetricData l ctx entry w))\<lparr>stdout := stdout w @ [j]\<rparr>))"
  by (simp add: logToCloudWatch_def putMetricData_def client_PutMetricData_def fmt_Println_def Let_def
      split: option.split sum.split)

lemma column_error_message:
  "column_value ''error_message'' (insert_statement l entry j)
     = Some (ArgString (case Error entry of Some msg \<Rightarrow> msg | None \<Rightarrow> ''''))"
  by (simp add: insert_statement_def insert_columns_def)

lemma logToDB_new_calls:
  "\<exists>new. db_trace (logToDB l ctx entry w) = db_trace w @ new
     \<and> (\<forall>h stmt r. ((h, stmt), r) \<in> set new \<and> is_InsertInto stmt
           \<longrightarrow> (\<exists>j. stmt = insert_statement l entry j))"
  by (auto simp add: logToDB_eq split: option.split sum.split)

lemmas run_defs =
  logToDB_eq logToCloudWatch_eq as_Logger.simps DBLogger_createLogEntry_eq
  CloudWatchLogger_createLogEntry_eq putMetricData_def client_PutMetricData_def Let_def
  first_metadata_def map_index_def marshal_metadata_def insert_statement_def
  DBLogger_Debug_def DBLogger_Info_def DBLogger_Warn_def DBLogger_Error_def DBLogger_Fatal_def
  CloudWatchLogger_Debug_def CloudWatchLogger_Info_def CloudWatchLogger_Warn_def
  CloudWatchLogger_Error_def CloudWatchLogger_Fatal_def
  NewDBLogger_def NewCloudWatchLogger_def example_db_def example_cw_def example_metadata_def
  calm_world_def DEBUG_def INFO_def WARN_def ERROR_def FATAL_def
  GetRequestIDFromContext_def GetUserIDFromContext_def

lemmas world_defs =
  db_down_world_def insert_failing_world_def unencodable_metadata_world_def
  metrics_down_world_def example_entry_def channel_entry_def channel_metadata_def
  channel_call_example_def ensureLogTable_def db_ExecContext_def

lemma error_call_example_trace:
  "db_trace (invoke (as_Logger (DB example_db)) error_call_example calm_world) =
     [((0, CreateTableIfNotExists ''api_logs''), None), ((0, error_call_row), None)]"
  by (simp add: run_defs error_call_example_def error_call_row_def)








lemma router_dispatch:
  "router handlers ctx0 request w = (not_found, w)
   \<or> (\<exists>m. router handlers ctx0 request w = handlers m (router_context ctx0 request) request w)"
  unfolding router_def router_context_def Let_def
  by (auto split: if_splits)

section \<open>The claims\<close>

text \<open>
  Claim C8. The two extraction functions return the absent value, and nothing else, on a nil
  context, on a context that does not bind the key (\<^verbatim>\<open>Value\<close> returns nil) and on a context
  that binds it to a value of another type: the empty string for the request id, zero for
  the user id. Both are total functions of the context; no branch of them fails.
\<close>

theorem context_extraction_absent:
  "GetRequestIDFromContext None = ''''
   \<and> GetUserIDFromContext None = 0
   \<and> (context_Value c (GoString ''requestID'') = GoNil \<longrightarrow> GetRequestIDFromContext (Some c) = '''')
   \<and> ((\<forall>s. context_Value c (GoString ''requestID'') \<noteq> GoString s)
        \<longrightarrow> GetRequestIDFromContext (Some c) = '''')
   \<and> (context_Value c (GoString ''userID'') = GoNil \<longrightarrow> GetUserIDFromContext (Some c) = 0)
   \<and> ((\<forall>i. context_Value c (GoString ''userID'') \<noteq> GoInt i)
        \<longrightarrow> GetUserIDFromContext (Some c) = 0)"
proof -
  have r: "(\<forall>s. v \<noteq> GoString s) \<Longrightarrow> assert_string v = ('''', False)" for v
    by (cases v) simp_all
  have u: "(\<forall>i. v \<noteq> GoInt i) \<Longrightarrow> assert_int v = (0, False)" for v
    by (cases v) simp_all
  show ?thesis
    by (auto simp add: GetRequestIDFromContext_def GetUserIDFromContext_def r u)
qed

theorem context_extraction_absent_witness:
  "GetRequestIDFromContext (Some Background) = ''''
   \<and> GetUserIDFromContext (Some Background) = 0
   \<and> GetRequestIDFromContext (Some mistyped_context) = ''''
   \<and> GetUserIDFromContext (Some mistyped_context) = 0"
proof -
  have a: "context_Value Background (GoString ''requestID'') = GoNil"
    and b: "context_Value Background (GoString ''userID'') = GoNil"
    by simp_all
  have c: "\<forall>s. context_Value mistyped_context (GoString ''requestID'') \<noteq> GoString s"
    and d: "\<forall>i. context_Value mistyped_context (GoString ''userID'') \<noteq> GoInt i"
    by (simp_all add: mistyped_context_def)
  from context_extraction_absent [of Background] a b
    context_extraction_absent [of mistyped_context] c d
  show ?thesis by blast
qed

text \<open>
  Claim C1. The name of the metric is always the level, an underscore and the resource;
  the test \<^verbatim>\<open>metricName == ""\<close> that should fall back to the level never holds, so an entry
  without resource is counted under the level followed by the separator: an Info call
  without metadata sends the metric \<open>INFO_\<close>.
\<close>

theorem metric_name_without_resource:
  "cw_trace (CloudWatchLogger_Info example_cw None ''hello'' [] calm_world) =
     [((0, PutMetricDataInput ''SiteGeav/API''
             [MetricDatum ''INFO_'' [Dimension ''ServiceName'' ''site-geav-api''] 1000 1 ''Count'']),
       None)]"
  by (simp add: CloudWatchLogger_Info_def CloudWatchLogger_createLogEntry_eq logToCloudWatch_def
      putMetricData_def client_PutMetricData_def fmt_Println_def Let_def first_metadata_def
      map_index_def calm_world_def example_cw_def NewCloudWatchLogger_def INFO_def)

text \<open>
  Claim C2. In the entry either sink builds, \<open>Action\<close>, \<open>Resource\<close> and \<open>ResourceID\<close> are the
  values of the keys \<open>action\<close>, \<open>resource\<close> and \<open>resource_id\<close> of the metadata map when these are
  strings, and the empty string when the key is missing, bound to a value of another type,
  or when there is no map; the map itself is attached to the entry as it was passed, the
  three keys still in it. Every severity method builds its entry this way (lemmas
  \<open>invoke_DB\<close> and \<open>invoke_CW\<close>).
\<close>

theorem createLogEntry_mirrors_metadata_keys:
  "(first_metadata metadata = Some m \<and> m ''action'' = Some (GoString a)
      \<longrightarrow> Action (fst (DBLogger_createLogEntry l ctx level message err metadata w)) = a
        \<and> Action (fst (CloudWatchLogger_createLogEntry l' ctx level message err metadata w)) = a)
   \<and> (first_metadata metadata = Some m \<and> m ''resource'' = Some (GoString r)
      \<longrightarrow> Resource (fst (DBLogger_createLogEntry l ctx level message err metadata w)) = r
        \<and> Resource (fst (CloudWatchLogger_createLogEntry l' ctx level message err metadata w)) = r)
   \<and> (first_metadata metadata = Some m \<and> m ''resource_id'' = Some (GoString i)
      \<longrightarrow> ResourceID (fst (DBLogger_createLogEntry l ctx level message err metadata w)) = i
        \<and> ResourceID (fst (CloudWatchLogger_createLogEntry l' ctx level message err metadata w)) = i)
   \<and> ((\<forall>s. map_index (first_metadata metadata) ''action'' \<noteq> GoString s)
      \<longrightarrow> Action (fst (DBLogger_createLogEntry l ctx level message err metadata w)) = ''''
        \<and> Action (fst (CloudWatchLogger_createLogEntry l' ctx level message err metadata w)) = '''')
   \<and> ((\<forall>s. map_index (first_metadata metadata) ''resource'' \<noteq> GoString s)
      \<longrightarrow> Resource (fst (DBLogger_createLogEntry l ctx level message err metadata w)) = ''''
        \<and> Resource (fst (CloudWatchLogger_createLogEntry l' ctx level message err metadata w)) = '''')
   \<and> ((\<forall>s. map_index (first_metadata metadata) ''resource_id'' \<noteq> GoString s)
      \<longrightarrow> ResourceID (fst (DBLogger_createLogEntry l ctx level message err metadata w)) = ''''
        \<and> ResourceID (fst (CloudWatchLogger_createLogEntry l' ctx level message err metadata w)) = '''')
   \<and> Metadata (fst (DBLogger_createLogEntry l ctx level message err metadata w))
        = first_metadata metadata
   \<and> Metadata (fst (CloudWatchLogger_createLogEntry l' ctx level message err metadata w))
        = first_metadata metadata"
proof -
  have r: "(\<forall>s. v \<noteq> GoString s) \<Longrightarrow> assert_string v = ('''', False)" for v
    by (cases v) simp_all
  show ?thesis
    by (simp add: DBLogger_createLogEntry_eq CloudWatchLogger_createLogEntry_eq r)
       (simp add: map_index_def)
qed

theorem createLogEntry_mirrors_metadata_keys_witness:
  "Action (fst (DBLogger_createLogEntry example_db None INFO ''hello'' None
       [Some scenario_metadata] calm_world)) = ''CreateUser''
   \<and> Resource (fst (CloudWatchLogger_createLogEntry example_cw None INFO ''hello'' None
       [Some scenario_metadata] calm_world)) = ''users''
   \<and> ResourceID (fst (DBLogger_createLogEntry example_db None INFO ''hello'' None
       [Some scenario_metadata] calm_world)) = ''42''
   \<and> ResourceID (fst (CloudWatchLogger_createLogEntry example_cw None INFO ''hello'' None
       [Some example_metadata] calm_world)) = ''''
   \<and> Action (fst (CloudWatchLogger_createLogEntry example_cw None INFO ''hello'' None
       [] calm_world)) = ''''
   \<and> Resource (fst (DBLogger_createLogEntry example_db None INFO ''hello'' None
       [] calm_world)) = ''''
   \<and> ResourceID (fst (DBLogger_createLogEntry example_db None INFO ''hello'' None
       [] calm_world)) = ''''
   \<and> Metadata (fst (DBLogger_createLogEntry example_db None INFO ''hello'' None
       [Some scenario_metadata] calm_world)) = Some scenario_metadata"
proof -
  have f: "first_metadata [Some scenario_metadata] = Some scenario_metadata"
    by (simp add: first_metadata_def)
  have a: "scenario_metadata ''action'' = Some (GoString ''CreateUser'')"
    and r: "scenario_metadata ''resource'' = Some (GoString ''users'')"
    and i: "scenario_metadata ''resource_id'' = Some (GoString ''42'')"
    by (simp_all add: scenario_metadata_def)
  have x: "\<forall>s. map_index (first_metadata [Some example_metadata]) ''resource_id'' \<noteq> GoString s"
    by (simp add: first_metadata_def map_index_def example_metadata_def)
  have n: "\<forall>s. map_index (first_metadata []) ''action'' \<noteq> GoString s"
    "\<forall>s. map_index (first_metadata []) ''resource'' \<noteq> GoString s"
    "\<forall>s. map_index (first_metadata []) ''resource_id'' \<noteq> GoString s"
    by (simp_all add: first_metadata_def map_index_def)
  note T = createLogEntry_mirrors_metadata_keys
             [where l = example_db and l' = example_cw and ctx = None and level = INFO
                and message = "''hello''" and err = None and w = calm_world]
  from T [where metadata = "[Some scenario_metadata]" and m = scenario_metadata
            and a = "''CreateUser''" and r = "''users''" and i = "''42''"] f a r i
  have p: "Action (fst (DBLogger_createLogEntry example_db None INFO ''hello'' None
                 [Some scenario_metadata] calm_world)) = ''CreateUser''
           \<and> Resource (fst (CloudWatchLogger_createLogEntry example_cw None INFO ''hello'' None
                 [Some scenario_metadata] calm_world)) = ''users''
           \<and> ResourceID (fst (DBLogger_createLogEntry example_db None INFO ''hello'' None
                 [Some scenario_metadata] calm_world)) = ''42''
           \<and> Metadata (fst (DBLogger_createLogEntry example_db None INFO ''hello'' None
                 [Some scenario_metadata] calm_world)) = Some scenario_metadata"
    by simp
  from T [where metadata = "[Some example_metadata]"] x
  have q: "ResourceID (fst (CloudWatchLogger_createLogEntry example_cw None INFO ''hello'' None
                 [Some example_metadata] calm_world)) = ''''"
    by blast
  from T [where metadata = "[]"] n
  have s: "Action (fst (CloudWatchLogger_createLogEntry example_cw None INFO ''hello'' None
                 [] calm_world)) = ''''
           \<and> Resource (fst (DBLogger_createLogEntry example_db None INFO ''hello'' None
                 [] calm_world)) = ''''
           \<and> ResourceID (fst (DBLogger_createLogEntry example_db None INFO ''hello'' None
                 [] calm_world)) = ''''"
    by blast
  from p q s show ?thesis by blast
qed

text \<open>
  Claim C10. Of several metadata maps passed to a call only the first reaches the entry:
  the entry built, and with it the whole effect of the call on either sink and on a
  composite logger over such sinks, is the one of the call with the first map alone.
\<close>

theorem only_first_metadata_map_is_used:
  "DBLogger_createLogEntry l ctx level message err (m # ms) w
     = DBLogger_createLogEntry l ctx level message err [m] w
   \<and> CloudWatchLogger_createLogEntry l' ctx level message err (m # ms) w
     = CloudWatchLogger_createLogEntry l' ctx level message err [m] w
   \<and> Metadata (fst (DBLogger_createLogEntry l ctx level message err (m # ms) w)) = m
   \<and> Metadata (fst (CloudWatchLogger_createLogEntry l' ctx level message err (m # ms) w)) = m
   \<and> invoke (as_Logger s) (with_metadata c (m # ms)) w
     = invoke (as_Logger s) (with_metadata c [m]) w
   \<and> CompositeLogger_invoke (NewCompositeLogger (map as_Logger ss)) (with_metadata c (m # ms)) w
     = CompositeLogger_invoke (NewCompositeLogger (map as_Logger ss)) (with_metadata c [m]) w"
proof -
  have "(\<lambda>s. invoke (as_Logger s) (with_metadata c (m # ms)))
          = (\<lambda>s. invoke (as_Logger s) (with_metadata c [m]))"
    by (rule ext, rule ext) (rule invoke_sink_first_map)
  then have "CompositeLogger_invoke (NewCompositeLogger (map as_Logger ss)) (with_metadata c (m # ms)) w
     = CompositeLogger_invoke (NewCompositeLogger (map as_Logger ss)) (with_metadata c [m]) w"
    by (simp add: CompositeLogger_invoke_fold NewCompositeLogger_def fold_map_as_Logger)
  with invoke_sink_first_map [of s c m ms w] show ?thesis
    by (simp add: DBLogger_createLogEntry_eq CloudWatchLogger_createLogEntry_eq first_metadata_Cons)
qed

text \<open>
  Claim C4. A call on a composite logger over \<open>N\<close> sinks calls the same method, with the
  same arguments, on every sink once, in the order of the list: putting each sink under
  observation, the calls noted are those of the sinks \<open>0, ..., N - 1\<close> in this order, and the
  sinks act on their state as they do unobserved, whatever they do there (a sink has no
  way to hand a failure back to the loop).
\<close>

theorem composite_calls_each_sink_once_in_order:
  "CompositeLogger_invoke (NewCompositeLogger (map (\<lambda>(i, l). traced i l) (enumerate 0 ls))) c (tr, w)
     = (tr @ map (\<lambda>i. (i, c)) [0..<length ls], CompositeLogger_invoke (NewCompositeLogger ls) c w)"
  using fold_traced [of c 0 ls tr w]
  by (simp add: CompositeLogger_invoke_fold NewCompositeLogger_def)

text \<open>
  Claim C3 as stated fails. An Info call on the database sink, every operation succeeding,
  inserts a row whose \<open>error_message\<close> is the empty string, a text value, and not NULL:
  \<^verbatim>\<open>errorMessage\<close> is a Go \<^verbatim>\<open>string\<close>, left at its zero value when the entry has no error.
\<close>

theorem error_message_null_counterexample:
  "snd (last (db_trace (DBLogger_Info example_db None ''hello'' [] calm_world))) = None
   \<and> is_InsertInto (snd (fst (last (db_trace (DBLogger_Info example_db None ''hello'' [] calm_world)))))
   \<and> column_value ''error_message''
        (snd (fst (last (db_trace (DBLogger_Info example_db None ''hello'' [] calm_world)))))
       = Some (ArgString '''')
   \<and> column_value ''error_message''
        (snd (fst (last (db_trace (DBLogger_Info example_db None ''hello'' [] calm_world)))))
       \<noteq> Some ArgNil
   \<and> column_value ''error_message''
        (snd (fst (last (db_trace (DBLogger_Info example_db None ''hello'' [] calm_world)))))
       \<noteq> None"
  by (simp add: run_defs insert_columns_def)

text \<open>
  Claim C3, amended. Every insertion the database sink sends for a call binds to
  \<open>error_message\<close> a text value: the empty string when the call has no error (Debug, Info,
  Warn, and Error or Fatal with a nil error), and exactly the text of \<^verbatim>\<open>err.Error()\<close>
  otherwise.
\<close>

theorem error_message_is_error_text:
  "((h, stmt), r) \<in> set (drop (length (db_trace w)) (db_trace (invoke (as_Logger (DB l)) c w)))
     \<and> is_InsertInto stmt
   \<longrightarrow> column_value ''error_message'' stmt
         = Some (ArgString (case call_error c of None \<Rightarrow> '''' | Some msg \<Rightarrow> msg))"
proof (intro impI, elim conjE)
  let ?entry = "fst (DBLogger_createLogEntry l (call_ctx c) (call_level c) (call_message c)
                       (call_error c) (call_metadata c) w)"
  let ?w1 = "w\<lparr>ticks := Suc (ticks w)\<rparr>"
  assume mem: "((h, stmt), r) \<in> set (drop (length (db_trace w)) (db_trace (invoke (as_Logger (DB l)) c w)))"
    and ins: "is_InsertInto stmt"
  obtain new where new: "db_trace (logToDB l (call_ctx c) ?entry ?w1) = db_trace ?w1 @ new"
    and shape: "\<forall>h stmt r. ((h, stmt), r) \<in> set new \<and> is_InsertInto stmt
                  \<longrightarrow> (\<exists>j. stmt = insert_statement l ?entry j)"
    using logToDB_new_calls [of l "call_ctx c" ?entry ?w1] by blast
  from mem new have "((h, stmt), r) \<in> set new"
    by (simp add: invoke_DB)
  with shape ins obtain j where "stmt = insert_statement l ?entry j" by blast
  moreover have "Error ?entry = call_error c"
    by (simp add: DBLogger_createLogEntry_eq)
  ultimately show "column_value ''error_message'' stmt
         = Some (ArgString (case call_error c of None \<Rightarrow> '''' | Some msg \<Rightarrow> msg))"
    by (simp add: column_error_message)
qed

text \<open>Witness for C3: the Error call of the example, in the calm world.\<close>

theorem error_message_is_error_text_witness:
  "((0, error_call_row), None)
       \<in> set (drop (length (db_trace calm_world))
                (db_trace (invoke (as_Logger (DB example_db)) error_call_example calm_world)))
   \<and> is_InsertInto error_call_row
   \<and> column_value ''error_message'' error_call_row = Some (ArgString ''context deadline exceeded'')"
proof -
  have a: "((0, error_call_row), None)
       \<in> set (drop (length (db_trace calm_world))
                (db_trace (invoke (as_Logger (DB example_db)) error_call_example calm_world)))"
    by (simp add: error_call_example_trace) (simp add: calm_world_def)
  have b: "is_InsertInto error_call_row"
    by (simp add: error_call_row_def)
  from error_message_is_error_text [of 0 error_call_row None calm_world example_db error_call_example] a b
  have "column_value ''error_message'' error_call_row
          = Some (ArgString (case call_error error_call_example of None \<Rightarrow> '''' | Some msg \<Rightarrow> msg))"
    by blast
  with a b show ?thesis by (simp add: error_call_example_def)
qed

text \<open>
  Claim C5. No logging method returns anything, and every branch of the sinks ends in a
  world: a failed operation ends the sink's work (or, for the metrics call, is passed
  over) after one line on standard output, and nothing of the failure is left anywhere
  else. For the database sink: a failed table creation, a metadata map that cannot be
  encoded, a failed insertion. For the metrics sink: an entry that cannot be encoded, a
  failed \<^verbatim>\<open>PutMetricData\<close>. Every method of a sink is \<^verbatim>\<open>createLogEntry\<close> followed by
  \<^verbatim>\<open>logToDB\<close> or \<^verbatim>\<open>logToCloudWatch\<close>, and the composite logger runs its sinks one after
  the other on the world the one before left.
\<close>

theorem sink_failures_are_printed_not_returned:
  "(fst (ensureLogTable l ctx w) = Some e
      \<longrightarrow> logToDB l ctx entry w
            = (snd (ensureLogTable l ctx w))
                \<lparr>stdout := stdout w @ [''Error ensuring log table: '' @ e]\<rparr>)
   \<and> (fst (ensureLogTable l ctx w) = None \<and> marshal_metadata w (Metadata entry) = Inl e
      \<longrightarrow> logToDB l ctx entry w
            = (snd (ensureLogTable l ctx w))
                \<lparr>stdout := stdout w @ [''Error marshaling metadata: '' @ e]\<rparr>)
   \<and> (fst (ensureLogTable l ctx w) = None \<and> marshal_metadata w (Metadata entry) = Inr j
       \<and> fst (db_ExecContext (db l) (insert_statement l entry j) (snd (ensureLogTable l ctx w)))
           = Some e
      \<longrightarrow> logToDB l ctx entry w
            = (snd (db_ExecContext (db l) (insert_statement l entry j) (snd (ensureLogTable l ctx w))))
                \<lparr>stdout := stdout w @ [''Error inserting log entry: '' @ e]\<rparr>)
   \<and> (json_Marshal_entry w entry = Inl e
      \<longrightarrow> logToCloudWatch l' ctx entry w
            = w\<lparr>stdout := stdout w @ [''Error marshaling log entry: '' @ e]\<rparr>)
   \<and> (json_Marshal_entry w entry = Inr js \<and> fst (putMetricData l' ctx entry w) = Some e
      \<longrightarrow> logToCloudWatch l' ctx entry w
            = (snd (putMetricData l' ctx entry w))
                \<lparr>stdout := stdout w @ [''Error sending metric to CloudWatch: '' @ e, js]\<rparr>)
   \<and> invoke (as_Logger (DB l)) c w
        = logToDB l (call_ctx c)
            (fst (DBLogger_createLogEntry l (call_ctx c) (call_level c) (call_message c)
                    (call_error c) (call_metadata c) w))
            (snd (DBLogger_createLogEntry l (call_ctx c) (call_level c) (call_message c)
                    (call_error c) (call_metadata c) w))
   \<and> invoke (as_Logger (CW l')) c w
        = logToCloudWatch l' (call_ctx c)
            (fst (CloudWatchLogger_createLogEntry l' (call_ctx c) (call_level c) (call_message c)
                    (call_error c) (call_metadata c) w))
            (snd (CloudWatchLogger_createLogEntry l' (call_ctx c) (call_level c) (call_message c)
                    (call_error c) (call_metadata c) w))
   \<and> CompositeLogger_invoke cl c w' = fold (\<lambda>logger. invoke logger c) (loggers cl) w'"
proof -
  have a: "fst (ensureLogTable l ctx w) = Some e
      \<longrightarrow> logToDB l ctx entry w
            = (snd (ensureLogTable l ctx w))
                \<lparr>stdout := stdout w @ [''Error ensuring log table: '' @ e]\<rparr>"
    by (simp add: logToDB_eq ensureLogTable_def db_ExecContext_def Let_def)
  have b: "fst (ensureLogTable l ctx w) = None \<and> marshal_metadata w (Metadata entry) = Inl e
      \<longrightarrow> logToDB l ctx entry w
            = (snd (ensureLogTable l ctx w))
                \<lparr>stdout := stdout w @ [''Error marshaling metadata: '' @ e]\<rparr>"
    by (simp add: logToDB_eq ensureLogTable_def db_ExecContext_def Let_def)
  have c: "fst (ensureLogTable l ctx w) = None \<and> marshal_metadata w (Metadata entry) = Inr j
       \<and> fst (db_ExecContext (db l) (insert_statement l entry j) (snd (ensureLogTable l ctx w)))
           = Some e
      \<longrightarrow> logToDB l ctx entry w
            = (snd (db_ExecContext (db l) (insert_statement l entry j) (snd (ensureLogTable l ctx w))))
                \<lparr>stdout := stdout w @ [''Error inserting log entry: '' @ e]\<rparr>"
    by (clarsimp simp add: logToDB_eq ensureLogTable_def db_ExecContext_def Let_def)
  have d: "json_Marshal_entry w entry = Inl e
      \<longrightarrow> logToCloudWatch l' ctx entry w
            = w\<lparr>stdout := stdout w @ [''Error marshaling log entry: '' @ e]\<rparr>"
    by (simp add: logToCloudWatch_eq)
  have e: "json_Marshal_entry w entry = Inr js \<and> fst (putMetricData l' ctx entry w) = Some e
      \<longrightarrow> logToCloudWatch l' ctx entry w
            = (snd (putMetricData l' ctx entry w))
                \<lparr>stdout := stdout w @ [''Error sending metric to CloudWatch: '' @ e, js]\<rparr>"
    by (simp add: logToCloudWatch_eq)
  show ?thesis
    using a b c d e
    by (simp add: invoke_DB invoke_CW CompositeLogger_invoke_fold DBLogger_createLogEntry_eq
        CloudWatchLogger_createLogEntry_eq)
qed

text \<open>Witness for C5: the five failures, each in a world where that operation fails.\<close>

theorem sink_failures_are_printed_not_returned_witness:
  "stdout (logToDB example_db None example_entry db_down_world)
     = [''Error ensuring log table: connection refused'']
   \<and> stdout (logToDB example_db None channel_entry unencodable_metadata_world)
     = [''Error marshaling metadata: json: unsupported type: chan int'']
   \<and> stdout (logToDB example_db None example_entry insert_failing_world)
     = [''Error inserting log entry: value too long'']
   \<and> stdout (logToCloudWatch example_cw None channel_entry unencodable_metadata_world)
     = [''Error marshaling log entry: json: unsupported type: chan int'']
   \<and> stdout (logToCloudWatch example_cw None example_entry metrics_down_world)
     = [''Error sending metric to CloudWatch: request send failed'', ''{...}'']"
proof -
  have h1: "fst (ensureLogTable example_db None db_down_world) = Some ''connection refused''"
    by (simp add: run_defs world_defs)
  have h2: "fst (ensureLogTable example_db None unencodable_metadata_world) = None
            \<and> marshal_metadata unencodable_metadata_world (Metadata channel_entry)
                = Inl ''json: unsupported type: chan int''"
    by (simp add: run_defs world_defs)
  have h3: "fst (ensureLogTable example_db None insert_failing_world) = None
            \<and> marshal_metadata insert_failing_world (Metadata example_entry) = Inr (Some ''{...}'')
            \<and> fst (db_ExecContext (db example_db)
                     (insert_statement example_db example_entry (Some ''{...}''))
                     (snd (ensureLogTable example_db None insert_failing_world)))
                = Some ''value too long''"
    by (simp add: run_defs world_defs)
  have h4: "json_Marshal_entry unencodable_metadata_world channel_entry
              = Inl ''json: unsupported type: chan int''"
    by (simp add: run_defs world_defs)
  have h5: "json_Marshal_entry metrics_down_world example_entry = Inr ''{...}''
            \<and> fst (putMetricData example_cw None example_entry metrics_down_world)
                = Some ''request send failed''"
    by (simp add: run_defs world_defs)
  have r1: "logToDB example_db None example_entry db_down_world
            = (snd (ensureLogTable example_db None db_down_world))
                \<lparr>stdout := stdout db_down_world @ [''Error ensuring log table: '' @ ''connection refused'']\<rparr>"
    by (rule sink_failures_are_printed_not_returned
            [where l = example_db and ctx = None and w = db_down_world
               and e = "''connection refused''" and entry = example_entry,
             THEN conjunct1, THEN mp, OF h1])
  have r2: "logToDB example_db None channel_entry unencodable_metadata_world
            = (snd (ensureLogTable example_db None unencodable_metadata_world))
                \<lparr>stdout := stdout unencodable_metadata_world
                    @ [''Error marshaling metadata: '' @ ''json: unsupported type: chan int'']\<rparr>"
    by (rule sink_failures_are_printed_not_returned
            [where l = example_db and ctx = None and w = unencodable_metadata_world
               and e = "''json: unsupported type: chan int''" and entry = channel_entry,
             THEN conjunct2, THEN conjunct1, THEN mp, OF h2])
  have r3: "logToDB example_db None example_entry insert_failing_world
            = (snd (db_ExecContext (db example_db)
                     (insert_statement example_db example_entry (Some ''{...}''))
                     (snd (ensureLogTable example_db None insert_failing_world))))
                \<lparr>stdout := stdout insert_failing_world
                    @ [''Error inserting log entry: '' @ ''value too long'']\<rparr>"
    by (rule sink_failures_are_printed_not_returned
            [where l = example_db and ctx = None and w = insert_failing_world
               and e = "''value too long''" and entry = example_entry and j = "Some ''{...}''",
             THEN conjunct2, THEN conjunct2, THEN conjunct1, THEN mp, OF h3])
  have r4: "logToCloudWatch example_cw None channel_entry unencodable_metadata_world
            = unencodable_metadata_world
                \<lparr>stdout := stdout unencodable_metadata_world
                    @ [''Error marshaling log entry: '' @ ''json: unsupported type: chan int'']\<rparr>"
    by (rule sink_failures_are_printed_not_returned
            [where l' = example_cw and ctx = None and w = unencodable_metadata_world
               and e = "''json: unsupported type: chan int''" and entry = channel_entry,
             THEN conjunct2, THEN conjunct2, THEN conjunct2, THEN conjunct1, THEN mp, OF h4])
  have r5: "logToCloudWatch example_cw None example_entry metrics_down_world
            = (snd (putMetricData example_cw None example_entry metrics_down_world))
                \<lparr>stdout := stdout metrics_down_world
                    @ [''Error sending metric to CloudWatch: '' @ ''request send failed'', ''{...}'']\<rparr>"
    by (rule sink_failures_are_printed_not_returned
            [where l' = example_cw and ctx = None and w = metrics_down_world
               and e = "''request send failed''" and entry = example_entry and js = "''{...}''",
             THEN conjunct2, THEN conjunct2, THEN conjunct2, THEN conjunct2, THEN conjunct1,
             THEN mp, OF h5])
  show ?thesis
    unfolding r1 r2 r3 r4 r5
    by (simp add: world_defs calm_world_def)
qed

text \<open>
  Claim C6 as stated fails. The composite logger builds no entry; each sink builds its own,
  with its own reading of the clock. In one Info call on the logger of cmd/users/main.go
  the metric carries the instant 1000 and the row the instant 1001, and the clock has been
  read twice.
\<close>

theorem one_entry_per_sink_counterexample:
  "cw_trace fanout_example =
     [((0, PutMetricDataInput ''SiteGeav/API''
             [MetricDatum ''INFO_'' [Dimension ''ServiceName'' ''site-geav-api''] 1000 1 ''Count'']),
       None)]
   \<and> db_trace fanout_example =
     [((0, CreateTableIfNotExists ''api_logs''), None),
      ((0, InsertInto ''api_logs''
             [ArgTime 1001, ArgString ''INFO'', ArgString ''hello'', ArgString ''site-geav-api'',
              ArgString '''', ArgInt 0, ArgString '''', ArgString '''', ArgString '''',
              ArgBytes None, ArgString '''']), None)]
   \<and> ticks fanout_example = ticks calm_world + 2"
  by (simp add: fanout_example_def main_log_def CompositeLogger_Info_def NewCompositeLogger_def
      run_defs)

text \<open>
  Claim C6, amended. A call on a composite logger over \<open>N\<close> database and metrics sinks reads
  the clock \<open>N\<close> times, once in each sink: every sink builds its own entry, stamped with the
  reading it took and carrying its own service name. Apart from the timestamp and the
  service name, the entries two sinks build from the same arguments are equal.
\<close>

theorem each_sink_builds_its_own_entry:
  "ticks (CompositeLogger_invoke (NewCompositeLogger (map as_Logger ss)) c w) = ticks w + length ss
   \<and> clock (CompositeLogger_invoke (NewCompositeLogger (map as_Logger ss)) c w) = clock w
   \<and> ticks (invoke (as_Logger s) c w) = Suc (ticks w)
   \<and> Timestamp (fst (DBLogger_createLogEntry l ctx level message err metadata w))
       = clock w (ticks w)
   \<and> Timestamp (fst (CloudWatchLogger_createLogEntry l' ctx level message err metadata w))
       = clock w (ticks w)
   \<and> snd (DBLogger_createLogEntry l ctx level message err metadata w) = w\<lparr>ticks := Suc (ticks w)\<rparr>
   \<and> snd (CloudWatchLogger_createLogEntry l' ctx level message err metadata w)
       = w\<lparr>ticks := Suc (ticks w)\<rparr>
   \<and> ServiceName (fst (DBLogger_createLogEntry l ctx level message err metadata w))
       = DBLogger.serviceName l
   \<and> ServiceName (fst (CloudWatchLogger_createLogEntry l' ctx level message err metadata w))
       = CloudWatchLogger.serviceName l'
   \<and> (fst (DBLogger_createLogEntry l ctx level message err metadata w))
         \<lparr>Timestamp := t, ServiceName := n\<rparr>
       = (fst (CloudWatchLogger_createLogEntry l' ctx level message err metadata w'))
           \<lparr>Timestamp := t, ServiceName := n\<rparr>"
  by (simp add: CompositeLogger_invoke_fold NewCompositeLogger_def fold_map_as_Logger
      fold_sinks_preserves invoke_sink_preserves DBLogger_createLogEntry_eq
      CloudWatchLogger_createLogEntry_eq)

text \<open>
  Claim C7 as stated fails. The router looks the header up under the exact key
  \<open>x-request-id\<close>: a request that carries it as \<open>X-Request-Id\<close> reaches the handler with the
  context unchanged, without request id, whereas the lower-case spelling binds it. No user
  id is put into the context in either case, whatever the authorizer claims hold.
\<close>

theorem request_id_header_case_counterexample:
  "snd (router recording_handler Background capitalised_request []) = [Background]
   \<and> GetRequestIDFromContext (Some Background) = ''''
   \<and> GetUserIDFromContext (Some Background) = 0
   \<and> snd (router recording_handler Background lowercase_request [])
       = [WithValue Background (GoString ''requestID'') (GoString ''abc'')]
   \<and> GetRequestIDFromContext (Some (WithValue Background (GoString ''requestID'') (GoString ''abc'')))
       = ''abc''
   \<and> GetUserIDFromContext (Some (WithValue Background (GoString ''requestID'') (GoString ''abc'')))
       = 0"
  by (simp add: router_def recording_handler_def capitalised_request_def lowercase_request_def
      GetRequestIDFromContext_def GetUserIDFromContext_def)

text \<open>
  Claim C7, amended. The router answers 404 or calls one handler, with the context in
  which \<open>requestID\<close> is bound to the value of the header \<open>x-request-id\<close>, spelled exactly so,
  when the request has that header, and with the incoming context otherwise. The user id
  of that context is the one of the incoming context: the router reads no principal, and
  the authorizer claims of the request do not enter the context.
\<close>

theorem router_injects_exact_header_only:
  "(router handlers ctx0 request w = (not_found, w)
     \<or> (\<exists>m. router handlers ctx0 request w = handlers m (router_context ctx0 request) request w))
   \<and> GetRequestIDFromContext (Some (router_context ctx0 request))
       = (case req_Headers request ''x-request-id'' of
            Some requestID \<Rightarrow> requestID
          | None \<Rightarrow> GetRequestIDFromContext (Some ctx0))
   \<and> GetUserIDFromContext (Some (router_context ctx0 request)) = GetUserIDFromContext (Some ctx0)
   \<and> router_context ctx0 (request\<lparr>req_Authorizer := claims\<rparr>) = router_context ctx0 request"
  using router_dispatch [of handlers ctx0 request w]
  by (simp add: router_context_def GetRequestIDFromContext_def GetUserIDFromContext_def
      split: option.split)



end
